theory Spec2Isabelle
  imports Main
begin

section \<open>The user service: request models, store, domain operations, endpoints\<close>

text \<open>
  The service of \<^verbatim>\<open>main.py\<close> is a set of asynchronous handlers over a table of users.
  Every \<^verbatim>\<open>await sync_to_async(f)(...)\<close> runs \<open>f\<close> to completion before the handler goes
  on, so a handler is modelled as a function from the store before the request to the
  store after it and the result. A Python \<^verbatim>\<open>str\<close> is a \<open>string\<close>, one \<open>char\<close> for each
  character that \<^verbatim>\<open>len\<close> counts. A timestamp is an \<open>int\<close>.
\<close>

subsection \<open>Request and response models\<close>

type_synonym datetime = int

text \<open>
  \<^verbatim>\<open>class UserBase(BaseModel)\<close>: two fields. \<^verbatim>\<open>class UserCreate(UserBase): pass\<close> adds
  nothing. \<^verbatim>\<open>class User(UserBase)\<close> adds \<^verbatim>\<open>id: int\<close> and an optional \<^verbatim>\<open>created_at\<close>.
\<close>

record UserBase =
  name :: string
  email :: string

type_synonym UserCreate = UserBase

record User = UserBase +
  id' :: int
  created_at :: "datetime option"

text \<open>The decoded JSON value of a request body; an object keeps its members in order.\<close>

datatype json =
    JNull
  | JBool bool
  | JNum int
  | JStr string
  | JArr "json list"
  | JObj "(string \<times> json) list"

text \<open>Decoding an object into a Python dict keeps the last member of a repeated key.\<close>

definition dict_get :: "(string \<times> json) list \<Rightarrow> string \<Rightarrow> json option" where
  "dict_get kvs k = map_of (rev kvs) k"

datatype error_type = missing | string_type | string_too_short | string_too_long
  | model_attributes_type

type_synonym error_details = "(string \<times> error_type) list"

text \<open>
  \<^verbatim>\<open>Field(..., min_length=1, max_length=100)\<close> on a \<^verbatim>\<open>str\<close>: the field is required, the
  value must be a string, and its length must lie between the two bounds.
\<close>

definition min_length :: nat where
  "min_length = 1"

definition max_length :: nat where
  "max_length = 100"

definition check_length :: "string \<Rightarrow> error_type option" where
  "check_length v =
     (if length v < min_length then Some string_too_short
      else if length v > max_length then Some string_too_long
      else None)"

definition validate_field :: "(string \<times> json) list \<Rightarrow> string \<Rightarrow> (string \<times> error_type) + string" where
  "validate_field kvs loc =
     (case dict_get kvs loc of
        None \<Rightarrow> Inl (loc, missing)
      | Some (JStr v) \<Rightarrow>
          (case check_length v of Some e \<Rightarrow> Inl (loc, e) | None \<Rightarrow> Inr v)
      | Some _ \<Rightarrow> Inl (loc, string_type))"

fun errors_of :: "((string \<times> error_type) + string) list \<Rightarrow> error_details" where
  "errors_of [] = []"
| "errors_of (Inl e # rs) = e # errors_of rs"
| "errors_of (Inr _ # rs) = errors_of rs"

text \<open>
  Validation of a request body against \<^verbatim>\<open>UserCreate\<close>. \<open>None\<close> is a request with no
  decodable body. Only the declared fields are read; the errors of all fields are
  collected, in the order of the fields.
\<close>

definition validate_UserCreate :: "json option \<Rightarrow> error_details + UserCreate" where
  "validate_UserCreate body =
     (case body of
        None \<Rightarrow> Inl [(''body'', missing)]
      | Some (JObj kvs) \<Rightarrow>
          (case (validate_field kvs ''name'', validate_field kvs ''email'') of
             (Inr n, Inr e) \<Rightarrow> Inr \<lparr>name = n, email = e\<rparr>
           | (rn, re) \<Rightarrow> Inl (errors_of [rn, re]))
      | Some _ \<Rightarrow> Inl [(''body'', model_attributes_type)])"

text \<open>\<^verbatim>\<open>user_data.model_dump()\<close>: the declared fields as keyword arguments.\<close>

definition model_dump :: "UserCreate \<Rightarrow> string \<times> string" where
  "model_dump user_data = (name user_data, email user_data)"

subsection \<open>The store\<close>

text \<open>
  Modelled from the spec: the module \<^verbatim>\<open>db_app.models\<close>, which declares the table behind
  \<^verbatim>\<open>UserModel\<close>, is not among the sources. The spec gives a table
  \<^verbatim>\<open>User(id, name, email, created_at)\<close> whose \<^verbatim>\<open>id\<close> is the primary key, assigned by the
  store on creation by auto-increment and not reused, and whose \<^verbatim>\<open>created_at\<close> is set once
  at creation. The rows are kept in insertion order.
\<close>

record UserModel =
  row_id :: int
  row_name :: string
  row_email :: string
  row_created_at :: datetime

record store =
  rows :: "UserModel list"
  next_id :: int

definition empty_store :: store where
  "empty_store = \<lparr>rows = [], next_id = 1\<rparr>"

text \<open>Modelled from the spec: \<^verbatim>\<open>UserModel.objects.all()\<close>, every row, in insertion order.\<close>

definition objects_all :: "store \<Rightarrow> UserModel list" where
  "objects_all s = rows s"

text \<open>
  Modelled from the spec: \<^verbatim>\<open>UserModel.objects.create(name=..., email=...)\<close> inserts a row
  with the next identifier and the store's reading \<open>now\<close> of the clock, and returns it.
\<close>

definition objects_create :: "store \<Rightarrow> datetime \<Rightarrow> string \<times> string \<Rightarrow> store \<times> UserModel" where
  "objects_create s now kwargs =
     (let user = \<lparr>row_id = next_id s, row_name = fst kwargs, row_email = snd kwargs,
                   row_created_at = now\<rparr>
      in (s\<lparr>rows := rows s @ [user], next_id := next_id s + 1\<rparr>, user))"

text \<open>
  Modelled from the spec: \<^verbatim>\<open>UserModel.objects.get(pk=...)\<close>, the primary-key lookup;
  \<open>None\<close> stands for \<^verbatim>\<open>UserModel.DoesNotExist\<close>.
\<close>

definition objects_get :: "store \<Rightarrow> int \<Rightarrow> UserModel option" where
  "objects_get s pk = find (\<lambda>r. row_id r = pk) (rows s)"

text \<open>
  Modelled from the spec: \<^verbatim>\<open>user.save()\<close> on a row that was read from the store
  overwrites, in place, the row with the same primary key.
\<close>

definition save :: "store \<Rightarrow> UserModel \<Rightarrow> store" where
  "save s user = s\<lparr>rows := map (\<lambda>r. if row_id r = row_id user then user else r) (rows s)\<rparr>"

text \<open>Modelled from the spec: \<^verbatim>\<open>user.delete()\<close> removes the row with that primary key.\<close>

definition delete :: "store \<Rightarrow> UserModel \<Rightarrow> store" where
  "delete s user = s\<lparr>rows := filter (\<lambda>r. row_id r \<noteq> row_id user) (rows s)\<rparr>"

subsection \<open>Asynchronous ORM wrappers\<close>

definition get_all_users_db :: "store \<Rightarrow> UserModel list" where
  "get_all_users_db s = objects_all s"

definition create_user_db :: "store \<Rightarrow> datetime \<Rightarrow> UserCreate \<Rightarrow> store \<times> UserModel" where
  "create_user_db s now user_data = objects_create s now (model_dump user_data)"

definition get_user_db :: "store \<Rightarrow> int \<Rightarrow> UserModel option" where
  "get_user_db s user_id = objects_get s user_id"

definition update_user_db :: "store \<Rightarrow> int \<Rightarrow> UserCreate \<Rightarrow> store \<times> UserModel option" where
  "update_user_db s user_id user_data =
     (case get_user_db s user_id of
        None \<Rightarrow> (s, None)
      | Some user \<Rightarrow>
          (let user1 = user\<lparr>row_name := name user_data\<rparr>;
               user2 = user1\<lparr>row_email := email user_data\<rparr>
           in (save s user2, Some user2)))"

definition delete_user_db :: "store \<Rightarrow> int \<Rightarrow> store \<times> bool" where
  "delete_user_db s user_id =
     (case get_user_db s user_id of
        None \<Rightarrow> (s, False)
      | Some user \<Rightarrow> (delete s user, True))"

subsection \<open>Endpoint functions\<close>

datatype http_error = HTTPException nat string

definition create_user :: "store \<Rightarrow> datetime \<Rightarrow> UserCreate \<Rightarrow> store \<times> (http_error + UserModel)" where
  "create_user s now user_in =
     (let (s', new_user) = create_user_db s now user_in in (s', Inr new_user))"

definition read_users :: "store \<Rightarrow> http_error + UserModel list" where
  "read_users s = (let users = get_all_users_db s in Inr users)"

definition read_user :: "store \<Rightarrow> int \<Rightarrow> http_error + UserModel" where
  "read_user s user_id =
     (case get_user_db s user_id of
        None \<Rightarrow> Inl (HTTPException 404 ''User not found'')
      | Some user \<Rightarrow> Inr user)"

definition update_user :: "store \<Rightarrow> int \<Rightarrow> UserCreate \<Rightarrow> store \<times> (http_error + UserModel)" where
  "update_user s user_id user_in =
     (case update_user_db s user_id user_in of
        (s', None) \<Rightarrow> (s', Inl (HTTPException 404 ''User not found''))
      | (s', Some updated_user) \<Rightarrow> (s', Inr updated_user))"

definition delete_user :: "store \<Rightarrow> int \<Rightarrow> store \<times> (http_error + unit)" where
  "delete_user s user_id =
     (case delete_user_db s user_id of
        (s', success) \<Rightarrow>
          (if \<not> success then (s', Inl (HTTPException 404 ''User not found''))
           else (s', Inr ())))"

subsection \<open>Routing: the decorators of the endpoints\<close>

text \<open>
  A route validates the body against the type of the handler's parameter before the
  handler runs (a failure is answered with 422), and validates what the handler returns
  against \<^verbatim>\<open>response_model\<close>, read from the attributes of the row (a failure there is a
  server error). An \<^verbatim>\<open>HTTPException\<close> is answered with its status code and detail.
\<close>

datatype content =
    JSON_User User
  | JSON_Users "User list"
  | JSON_detail string
  | JSON_errors error_details
  | No_content
  | Internal_Server_Error

record response =
  status_code :: nat
  content :: content

definition from_attributes :: "UserModel \<Rightarrow> error_details + User" where
  "from_attributes r =
     (case (check_length (row_name r), check_length (row_email r)) of
        (None, None) \<Rightarrow>
          Inr \<lparr>name = row_name r, email = row_email r, id' = row_id r,
                created_at = Some (row_created_at r)\<rparr>
      | (en, ee) \<Rightarrow>
          Inl (map (\<lambda>e. (''name'', e)) (case en of None \<Rightarrow> [] | Some e \<Rightarrow> [e]) @
               map (\<lambda>e. (''email'', e)) (case ee of None \<Rightarrow> [] | Some e \<Rightarrow> [e])))"

fun from_attributes_list :: "UserModel list \<Rightarrow> error_details + User list" where
  "from_attributes_list [] = Inr []"
| "from_attributes_list (r # rs) =
     (case from_attributes r of
        Inl e \<Rightarrow> Inl e
      | Inr u \<Rightarrow> (case from_attributes_list rs of Inl e \<Rightarrow> Inl e | Inr us \<Rightarrow> Inr (u # us)))"

definition error_response :: "http_error \<Rightarrow> response" where
  "error_response e =
     (case e of HTTPException code detail \<Rightarrow> \<lparr>status_code = code, content = JSON_detail detail\<rparr>)"

definition unprocessable :: "error_details \<Rightarrow> response" where
  "unprocessable errs = \<lparr>status_code = 422, content = JSON_errors errs\<rparr>"

definition server_error :: response where
  "server_error = \<lparr>status_code = 500, content = Internal_Server_Error\<rparr>"

definition respond_User :: "nat \<Rightarrow> http_error + UserModel \<Rightarrow> response" where
  "respond_User code result =
     (case result of
        Inl e \<Rightarrow> error_response e
      | Inr r \<Rightarrow>
          (case from_attributes r of
             Inl _ \<Rightarrow> server_error
           | Inr u \<Rightarrow> \<lparr>status_code = code, content = JSON_User u\<rparr>))"

definition respond_Users :: "nat \<Rightarrow> http_error + UserModel list \<Rightarrow> response" where
  "respond_Users code result =
     (case result of
        Inl e \<Rightarrow> error_response e
      | Inr rs \<Rightarrow>
          (case from_attributes_list rs of
             Inl _ \<Rightarrow> server_error
           | Inr us \<Rightarrow> \<lparr>status_code = code, content = JSON_Users us\<rparr>))"

datatype request =
    POST_users "json option"
  | GET_users
  | GET_user int
  | PUT_user int "json option"
  | DELETE_user int

text \<open>
  The application: each request goes to its route. \<open>now\<close> is what the store's clock
  reads while the request is served.
\<close>

fun app :: "store \<Rightarrow> datetime \<Rightarrow> request \<Rightarrow> store \<times> response" where
  "app s now (POST_users body) =
     (case validate_UserCreate body of
        Inl errs \<Rightarrow> (s, unprocessable errs)
      | Inr user_in \<Rightarrow>
          (let (s', result) = create_user s now user_in in (s', respond_User 201 result)))"
| "app s now GET_users = (s, respond_Users 200 (read_users s))"
| "app s now (GET_user user_id) = (s, respond_User 200 (read_user s user_id))"
| "app s now (PUT_user user_id body) =
     (case validate_UserCreate body of
        Inl errs \<Rightarrow> (s, unprocessable errs)
      | Inr user_in \<Rightarrow>
          (let (s', result) = update_user s user_id user_in in (s', respond_User 200 result)))"
| "app s now (DELETE_user user_id) =
     (case delete_user s user_id of
        (s', Inl e) \<Rightarrow> (s', error_response e)
      | (s', Inr _) \<Rightarrow> (s', \<lparr>status_code = 204, content = No_content\<rparr>))"

subsection \<open>Settings: the database configuration\<close>

text \<open>
  \<^verbatim>\<open>config/settings.py\<close>. A path is the list of its components below the root. The
  environment is a map from variable names to values; \<^verbatim>\<open>load_dotenv\<close> adds the variables
  of the \<^verbatim>\<open>.env\<close> file (an empty map when there is no such file) that the process
  environment does not already set.
\<close>

type_synonym path = "string list"

type_synonym environ = "string \<rightharpoonup> string"

definition parent :: "path \<Rightarrow> path" where
  "parent p = butlast p"

definition BASE_DIR :: "path \<Rightarrow> path" where
  "BASE_DIR file = parent (parent file)"

definition load_dotenv :: "environ \<Rightarrow> environ \<Rightarrow> environ" where
  "load_dotenv env dotenv = dotenv ++ env"

definition getenv :: "environ \<Rightarrow> string \<Rightarrow> 'a \<Rightarrow> (string \<Rightarrow> 'a) \<Rightarrow> 'a" where
  "getenv env key default_value of_str =
     (case env key of None \<Rightarrow> default_value | Some v \<Rightarrow> of_str v)"

text \<open>\<^verbatim>\<open>'NAME'\<close> is the string of the variable or, by default, a path object.\<close>

datatype db_name = Name_str string | Name_path path

record database =
  ENGINE :: string
  NAME :: db_name
  USER :: "string option"
  PASSWORD :: "string option"
  HOST :: "string option"
  PORT :: "string option"

definition DATABASES :: "path \<Rightarrow> environ \<Rightarrow> environ \<Rightarrow> string \<rightharpoonup> database" where
  "DATABASES file env dotenv =
     (let env' = load_dotenv env dotenv
      in [''default'' \<mapsto>
            \<lparr>ENGINE = getenv env' ''DB_ENGINE'' ''django.db.backends.sqlite3'' (\<lambda>v. v),
             NAME = getenv env' ''DB_NAME'' (Name_path (BASE_DIR file @ [''db.sqlite3''])) Name_str,
             USER = getenv env' ''DB_USER'' None Some,
             PASSWORD = getenv env' ''DB_PASSWORD'' None Some,
             HOST = getenv env' ''DB_HOST'' None Some,
             PORT = getenv env' ''DB_PORT'' None Some\<rparr>])"

subsection \<open>The invariant of the store\<close>

text \<open>
  The data model's invariant: identifiers are unique, were assigned in increasing order
  (so the rows, kept in insertion order, are in increasing order of identifier) and lie
  below the next identifier; name and email are within the length bounds.
\<close>

definition row_ok :: "UserModel \<Rightarrow> bool" where
  "row_ok r \<longleftrightarrow> check_length (row_name r) = None \<and> check_length (row_email r) = None"

definition store_inv :: "store \<Rightarrow> bool" where
  "store_inv s \<longleftrightarrow>
     0 < next_id s \<and>
     sorted_wrt (<) (map row_id (rows s)) \<and>
     list_all (\<lambda>r. 0 < row_id r \<and> row_id r < next_id s) (rows s) \<and>
     list_all row_ok (rows s)"

text \<open>The response shape of a row whose fields are within the bounds.\<close>

definition to_User :: "UserModel \<Rightarrow> User" where
  "to_User r = \<lparr>name = row_name r, email = row_email r, id' = row_id r,
                created_at = Some (row_created_at r)\<rparr>"

text \<open>Requests served one after the other, each with its reading of the clock.\<close>

fun serve :: "store \<Rightarrow> (datetime \<times> request) list \<Rightarrow> store \<times> response list" where
  "serve s [] = (s, [])"
| "serve s ((now, rq) # rqs) =
     (let (s', r) = app s now rq; (s'', rs) = serve s' rqs in (s'', r # rs))"

text \<open>
  The specification's words for an acceptable body of \<^verbatim>\<open>POST /users/\<close>, to be compared
  with \<open>validate_UserCreate\<close>: a JSON object with \<^verbatim>\<open>name\<close> and \<^verbatim>\<open>email\<close>, each a text of
  1 to 100 characters.
\<close>

fun spec_field_ok :: "json option \<Rightarrow> bool" where
  "spec_field_ok (Some (JStr v)) = (1 \<le> length v \<and> length v \<le> 100)"
| "spec_field_ok _ = False"

fun spec_body_ok :: "json option \<Rightarrow> bool" where
  "spec_body_ok (Some (JObj kvs)) =
     (spec_field_ok (dict_get kvs ''name'') \<and> spec_field_ok (dict_get kvs ''email''))"
| "spec_body_ok _ = False"

text \<open>The answer to a valid creation and the store after it.\<close>

definition created :: "store \<Rightarrow> datetime \<Rightarrow> UserCreate \<Rightarrow> User" where
  "created s now u = \<lparr>name = name u, email = email u, id' = next_id s, created_at = Some now\<rparr>"

definition inserted :: "store \<Rightarrow> datetime \<Rightarrow> UserCreate \<Rightarrow> store" where
  "inserted s now u = fst (create_user_db s now u)"

subsection \<open>Example stores and requests\<close>

definition ann :: UserModel where
  "ann = \<lparr>row_id = 1, row_name = ''Ann'', row_email = ''a@x.com'', row_created_at = 1000\<rparr>"

definition one_user :: store where
  "one_user = \<lparr>rows = [ann], next_id = 2\<rparr>"

definition ann_body :: "json option" where
  "ann_body = Some (JObj [(''name'', JStr ''Ann''), (''email'', JStr ''a@x.com'')])"

definition empty_name_body :: "json option" where
  "empty_name_body = Some (JObj [(''name'', JStr ''''), (''email'', JStr ''a@x.com'')])"

definition no_email_body :: "json option" where
  "no_email_body = Some (JObj [(''name'', JStr ''Ann'')])"

definition long_name_body :: "json option" where
  "long_name_body =
     Some (JObj [(''name'', JStr (replicate 101 CHR ''a'')), (''email'', JStr ''a@x.com'')])"

definition bob :: UserCreate where
  "bob = \<lparr>name = ''Bob'', email = ''b@x.com''\<rparr>"

definition bob_body :: "json option" where
  "bob_body = Some (JObj [(''name'', JStr ''Bob''), (''email'', JStr ''b@x.com'')])"

definition bob_row :: UserModel where
  "bob_row = \<lparr>row_id = 2, row_name = ''Bob'', row_email = ''b@x.com'', row_created_at = 2000\<rparr>"

definition two_users :: store where
  "two_users = \<lparr>rows = [ann, bob_row], next_id = 3\<rparr>"

definition cat :: UserCreate where
  "cat = \<lparr>name = ''Cat'', email = ''c@x.com''\<rparr>"

definition cat_body :: "json option" where
  "cat_body = Some (JObj [(''name'', JStr ''Cat''), (''email'', JStr ''c@x.com'')])"

definition ann_create :: UserCreate where
  "ann_create = \<lparr>name = ''Ann'', email = ''a@x.com''\<rparr>"

definition ann_body_extra :: "(string \<times> json) list" where
  "ann_body_extra =
     [(''id'', JNum 99), (''name'', JStr ''Ann''), (''created_at'', JStr ''1999-12-31''),
      (''email'', JStr ''a@x.com''), (''admin'', JBool True)]"

definition ann_body_plain :: "(string \<times> json) list" where
  "ann_body_plain = [(''name'', JStr ''Ann''), (''email'', JStr ''a@x.com'')]"

definition settings_file :: path where
  "settings_file = [''srv'', ''app'', ''config'', ''settings.py'']"

definition postgres_env :: environ where
  "postgres_env =
     [''DB_ENGINE'' \<mapsto> ''django.db.backends.postgresql'', ''DB_NAME'' \<mapsto> ''users'',
      ''DB_HOST'' \<mapsto> ''db.local'']"

definition dotenv_file :: environ where
  "dotenv_file = [''DB_HOST'' \<mapsto> ''other'', ''DB_PORT'' \<mapsto> ''5432'']"

section \<open>Properties\<close>

subsection \<open>Validation\<close>

lemma check_length_None: "check_length v = None \<longleftrightarrow> 1 \<le> length v \<and> length v \<le> 100"
  by (cases v) (simp_all add: check_length_def min_length_def max_length_def)

lemma validate_field_Inr:
  "validate_field kvs loc = Inr v \<longleftrightarrow> dict_get kvs loc = Some (JStr v) \<and> check_length v = None"
  by (auto simp: validate_field_def split: option.splits json.splits)

lemma validate_UserCreate_Inr:
  "validate_UserCreate body = Inr u \<longleftrightarrow>
     (\<exists>kvs. body = Some (JObj kvs) \<and> validate_field kvs ''name'' = Inr (name u) \<and>
        validate_field kvs ''email'' = Inr (email u))"
  by (cases u) (auto simp: validate_UserCreate_def split: option.splits json.splits sum.splits)

lemma validate_UserCreate_lengths:
  assumes "validate_UserCreate body = Inr u"
  shows "check_length (name u) = None" and "check_length (email u) = None"
  using assms by (auto simp: validate_UserCreate_Inr validate_field_Inr)

lemma from_attributes_ok: "row_ok r \<Longrightarrow> from_attributes r = Inr (to_User r)"
  by (simp add: row_ok_def from_attributes_def to_User_def)

lemma from_attributes_list_ok: "list_all row_ok rs \<Longrightarrow> from_attributes_list rs = Inr (map to_User rs)"
  by (induction rs) (simp_all add: from_attributes_ok)

subsection \<open>Primary-key lookup\<close>

lemma get_user_db_None: "get_user_db s i = None \<longleftrightarrow> (\<forall>r \<in> set (rows s). row_id r \<noteq> i)"
  by (auto simp: get_user_db_def objects_get_def find_None_iff)

lemma get_user_db_Some: "get_user_db s i = Some r \<Longrightarrow> r \<in> set (rows s) \<and> row_id r = i"
  by (auto simp: get_user_db_def objects_get_def find_Some_iff)

lemma find_distinct_key:
  "distinct (map f xs) \<Longrightarrow> x \<in> set xs \<Longrightarrow> find (\<lambda>y. f y = f x) xs = Some x"
  by (induction xs) (auto simp: image_iff)

lemma store_inv_distinct: "store_inv s \<Longrightarrow> distinct (map row_id (rows s))"
  by (simp add: store_inv_def strict_sorted_iff)

lemma get_user_db_member:
  "store_inv s \<Longrightarrow> r \<in> set (rows s) \<Longrightarrow> get_user_db s (row_id r) = Some r"
  by (simp add: get_user_db_def objects_get_def find_distinct_key store_inv_distinct)

subsection \<open>The operations and the invariant\<close>

lemma create_user_db_eq:
  "create_user_db s now u =
     (s\<lparr>rows := rows s @ [\<lparr>row_id = next_id s, row_name = name u, row_email = email u,
                             row_created_at = now\<rparr>],
        next_id := next_id s + 1\<rparr>,
      \<lparr>row_id = next_id s, row_name = name u, row_email = email u, row_created_at = now\<rparr>)"
  by (simp add: create_user_db_def objects_create_def model_dump_def Let_def)

lemma store_inv_empty: "store_inv empty_store"
  by (simp add: store_inv_def empty_store_def)

lemma store_inv_create:
  assumes "store_inv s" "check_length (name u) = None" "check_length (email u) = None"
  shows "store_inv (fst (create_user_db s now u))"
  using assms
  by (auto simp: create_user_db_eq store_inv_def sorted_wrt_append list_all_iff row_ok_def)

lemma update_user_db_None:
  "get_user_db s i = None \<Longrightarrow> update_user_db s i u = (s, None)"
  by (simp add: update_user_db_def)

lemma update_user_db_Some:
  "get_user_db s i = Some r \<Longrightarrow>
   update_user_db s i u =
     (s\<lparr>rows := map (\<lambda>x. if row_id x = i then r\<lparr>row_name := name u, row_email := email u\<rparr> else x)
                    (rows s)\<rparr>,
      Some (r\<lparr>row_name := name u, row_email := email u\<rparr>))"
  by (frule get_user_db_Some) (simp add: update_user_db_def save_def Let_def)

lemma row_id_update:
  "row_id r = i \<Longrightarrow>
   row_id \<circ> (\<lambda>x. if row_id x = i then r\<lparr>row_name := n, row_email := e\<rparr> else x) = row_id"
  by (auto simp: fun_eq_iff)

lemma store_inv_update:
  assumes "store_inv s" "check_length (name u) = None" "check_length (email u) = None"
  shows "store_inv (fst (update_user_db s i u))"
proof (cases "get_user_db s i")
  case None
  then show ?thesis using assms by (simp add: update_user_db_None)
next
  case (Some r)
  then have r: "r \<in> set (rows s)" "row_id r = i" by (auto dest: get_user_db_Some)
  show ?thesis
    using assms r
    by (auto simp: update_user_db_Some[OF Some] store_inv_def row_id_update list_all_iff row_ok_def)
qed

lemma delete_user_db_None:
  "get_user_db s i = None \<Longrightarrow> delete_user_db s i = (s, False)"
  by (simp add: delete_user_db_def)

lemma delete_user_db_Some:
  "get_user_db s i = Some r \<Longrightarrow>
   delete_user_db s i = (s\<lparr>rows := filter (\<lambda>x. row_id x \<noteq> i) (rows s)\<rparr>, True)"
  by (frule get_user_db_Some) (simp add: delete_user_db_def delete_def)

lemma sorted_wrt_map_filter:
  "sorted_wrt R (map f xs) \<Longrightarrow> sorted_wrt R (map f (filter P xs))"
  by (induction xs) auto

lemma store_inv_delete:
  assumes "store_inv s"
  shows "store_inv (fst (delete_user_db s i))"
proof (cases "get_user_db s i")
  case None
  then show ?thesis using assms by (simp add: delete_user_db_None)
next
  case (Some r)
  show ?thesis
    using assms
    by (auto simp: delete_user_db_Some[OF Some] store_inv_def sorted_wrt_map_filter list_all_iff)
qed

subsection \<open>The routes\<close>

lemma app_POST_invalid:
  "validate_UserCreate body = Inl errs \<Longrightarrow> app s now (POST_users body) = (s, unprocessable errs)"
  by simp

lemma app_POST_valid:
  assumes "validate_UserCreate body = Inr u"
  shows "app s now (POST_users body) =
     (fst (create_user_db s now u),
      \<lparr>status_code = 201, content = JSON_User (to_User (snd (create_user_db s now u)))\<rparr>)"
proof -
  obtain s' r where c: "create_user_db s now u = (s', r)"
    by (cases "create_user_db s now u")
  then have "row_ok r"
    using validate_UserCreate_lengths[OF assms] by (auto simp: create_user_db_eq row_ok_def)
  then show ?thesis
    using assms c by (simp add: create_user_def respond_User_def from_attributes_ok)
qed

lemma app_PUT_invalid:
  "validate_UserCreate body = Inl errs \<Longrightarrow> app s now (PUT_user i body) = (s, unprocessable errs)"
  by simp

lemma app_PUT_absent:
  assumes "validate_UserCreate body = Inr u" "get_user_db s i = None"
  shows "app s now (PUT_user i body) =
     (s, \<lparr>status_code = 404, content = JSON_detail ''User not found''\<rparr>)"
  using assms
  by (simp add: update_user_def update_user_db_None respond_User_def error_response_def)

lemma app_PUT_present:
  assumes "validate_UserCreate body = Inr u" "get_user_db s i = Some r"
  shows "app s now (PUT_user i body) =
     (fst (update_user_db s i u),
      \<lparr>status_code = 200,
       content = JSON_User (to_User (r\<lparr>row_name := name u, row_email := email u\<rparr>))\<rparr>)"
proof -
  have "row_ok (r\<lparr>row_name := name u, row_email := email u\<rparr>)"
    using validate_UserCreate_lengths[OF assms(1)] by (simp add: row_ok_def)
  then show ?thesis
    using assms
    by (simp add: update_user_def update_user_db_Some respond_User_def from_attributes_ok)
qed

lemma app_DELETE_absent:
  "get_user_db s i = None \<Longrightarrow>
   app s now (DELETE_user i) = (s, \<lparr>status_code = 404, content = JSON_detail ''User not found''\<rparr>)"
  by (simp add: delete_user_def delete_user_db_None error_response_def)

lemma app_DELETE_present:
  "get_user_db s i = Some r \<Longrightarrow>
   app s now (DELETE_user i) =
     (fst (delete_user_db s i), \<lparr>status_code = 204, content = No_content\<rparr>)"
  by (simp add: delete_user_def delete_user_db_Some)

lemma app_GET_user_absent:
  "get_user_db s i = None \<Longrightarrow>
   app s now (GET_user i) = (s, \<lparr>status_code = 404, content = JSON_detail ''User not found''\<rparr>)"
  by (simp add: read_user_def respond_User_def error_response_def)

lemma store_inv_row_ok: "store_inv s \<Longrightarrow> r \<in> set (rows s) \<Longrightarrow> row_ok r"
  by (simp add: store_inv_def list_all_iff)

lemma app_GET_user_present:
  "store_inv s \<Longrightarrow> get_user_db s i = Some r \<Longrightarrow>
   app s now (GET_user i) = (s, \<lparr>status_code = 200, content = JSON_User (to_User r)\<rparr>)"
  by (frule get_user_db_Some)
     (simp add: read_user_def respond_User_def from_attributes_ok store_inv_row_ok)

lemma app_GET_users:
  "store_inv s \<Longrightarrow>
   app s now GET_users = (s, \<lparr>status_code = 200, content = JSON_Users (map to_User (rows s))\<rparr>)"
  by (simp add: read_users_def get_all_users_db_def objects_all_def respond_Users_def
                from_attributes_list_ok store_inv_def)

lemma store_inv_app: "store_inv s \<Longrightarrow> store_inv (fst (app s now rq))"
proof (cases rq)
  case (POST_users body)
  assume inv: "store_inv s"
  show ?thesis
  proof (cases "validate_UserCreate body")
    case (Inl errs)
    then show ?thesis using inv POST_users by simp
  next
    case (Inr u)
    then show ?thesis
      using inv POST_users validate_UserCreate_lengths[OF Inr]
      by (simp add: app_POST_valid store_inv_create del: app.simps)
  qed
next
  case (PUT_user i body)
  assume inv: "store_inv s"
  show ?thesis
  proof (cases "validate_UserCreate body")
    case (Inl errs)
    then show ?thesis using inv PUT_user by simp
  next
    case (Inr u)
    have "fst (app s now (PUT_user i body)) = fst (update_user_db s i u)"
      using Inr by (cases "get_user_db s i") (simp_all add: app_PUT_absent app_PUT_present update_user_db_None del: app.simps)
    then show ?thesis
      using inv PUT_user validate_UserCreate_lengths[OF Inr] by (simp add: store_inv_update)
  qed
next
  case (DELETE_user i)
  assume inv: "store_inv s"
  have "fst (app s now (DELETE_user i)) = fst (delete_user_db s i)"
    by (cases "get_user_db s i") (simp_all add: app_DELETE_absent app_DELETE_present delete_user_db_None del: app.simps)
  then show ?thesis using inv DELETE_user by (simp add: store_inv_delete)
qed simp_all

lemma store_inv_serve: "store_inv s \<Longrightarrow> store_inv (fst (serve s rqs))"
proof (induction rqs arbitrary: s)
  case Nil
  then show ?case by simp
next
  case (Cons a rqs)
  obtain now rq where a: "a = (now, rq)" by (cases a)
  obtain s1 r1 where s1: "app s now rq = (s1, r1)" by (cases "app s now rq")
  obtain s2 rs where s2: "serve s1 rqs = (s2, rs)" by (cases "serve s1 rqs")
  have "store_inv s1"
    using store_inv_app[OF Cons.prems, of now rq] s1 by simp
  then have "store_inv s2"
    using Cons.IH[of s1] s2 by simp
  then show ?case
    using s1 s2 by (simp add: a)
qed

subsection \<open>Reading one user\<close>

text \<open>
  Claim C2. In a store that satisfies the invariant, \<^verbatim>\<open>GET /users/{id}\<close> answers 200 with
  the record whose identifier is \<open>user_id\<close> when the store holds one, and 404 with the
  detail \<^verbatim>\<open>User not found\<close> when it holds none; \<open>get_user_db\<close> returns the record or
  \<open>None\<close> accordingly, and the store is as before.
\<close>

theorem read_user_found_or_404:
  assumes "store_inv s"
  shows "(\<forall>r \<in> set (rows s). row_id r = user_id \<longrightarrow>
            get_user_db s user_id = Some r \<and>
            app s now (GET_user user_id) =
              (s, \<lparr>status_code = 200, content = JSON_User (to_User r)\<rparr>)) \<and>
         ((\<forall>r \<in> set (rows s). row_id r \<noteq> user_id) \<longrightarrow>
            get_user_db s user_id = None \<and>
            app s now (GET_user user_id) =
              (s, \<lparr>status_code = 404, content = JSON_detail ''User not found''\<rparr>))"
proof (intro conjI ballI impI)
  fix r assume r: "r \<in> set (rows s)" "row_id r = user_id"
  then show g: "get_user_db s user_id = Some r"
    using assms get_user_db_member by blast
  show "app s now (GET_user user_id) = (s, \<lparr>status_code = 200, content = JSON_User (to_User r)\<rparr>)"
    using assms g by (rule app_GET_user_present)
next
  assume "\<forall>r \<in> set (rows s). row_id r \<noteq> user_id"
  then show g: "get_user_db s user_id = None" by (simp add: get_user_db_None)
  show "app s now (GET_user user_id) =
      (s, \<lparr>status_code = 404, content = JSON_detail ''User not found''\<rparr>)"
    using g by (rule app_GET_user_absent)
qed

lemma store_inv_one_user: "store_inv one_user"
  by (simp add: store_inv_def one_user_def ann_def row_ok_def check_length_None)

theorem read_user_found_or_404_witness:
  "store_inv one_user \<and>
   get_user_db one_user 1 = Some ann \<and>
   app one_user 2000 (GET_user 1) =
     (one_user, \<lparr>status_code = 200,
        content = JSON_User \<lparr>name = ''Ann'', email = ''a@x.com'', id' = 1, created_at = Some 1000\<rparr>\<rparr>) \<and>
   get_user_db one_user 7 = None \<and>
   app one_user 2000 (GET_user 7) =
     (one_user, \<lparr>status_code = 404, content = JSON_detail ''User not found''\<rparr>)"
  using read_user_found_or_404[OF store_inv_one_user, of 1 2000]
        read_user_found_or_404[OF store_inv_one_user, of 7 2000] store_inv_one_user
  by (simp add: one_user_def ann_def to_User_def)

lemma find_snoc_new:
  "\<forall>x \<in> set xs. \<not> P x \<Longrightarrow> P y \<Longrightarrow> find P (xs @ [y]) = Some y"
  by (induction xs) auto

lemma validate_UserCreate_Inl_nonempty:
  "validate_UserCreate body = Inl errs \<Longrightarrow> errs \<noteq> []"
  by (auto simp: validate_UserCreate_def split: option.splits json.splits sum.splits)

lemma spec_field_ok_iff:
  "spec_field_ok j \<longleftrightarrow> (\<exists>v. j = Some (JStr v) \<and> check_length v = None)"
  by (cases j rule: spec_field_ok.cases) (simp_all add: check_length_None)

lemma spec_body_ok_iff:
  "spec_body_ok body \<longleftrightarrow>
     (\<exists>kvs n e. body = Some (JObj kvs) \<and>
        dict_get kvs ''name'' = Some (JStr n) \<and> dict_get kvs ''email'' = Some (JStr e) \<and>
        validate_UserCreate body = Inr \<lparr>name = n, email = e\<rparr>)"
proof (cases body rule: spec_body_ok.cases)
  case (1 kvs)
  then show ?thesis
    by (auto simp: validate_UserCreate_Inr validate_field_Inr spec_field_ok_iff)
qed (simp_all add: validate_UserCreate_Inr)

lemma not_spec_body_ok:
  assumes "\<not> spec_body_ok body"
  shows "\<exists>errs. validate_UserCreate body = Inl errs"
proof (cases "validate_UserCreate body")
  case (Inl errs)
  then show ?thesis by simp
next
  case (Inr u)
  then have "spec_body_ok body"
    by (cases u) (auto simp: spec_body_ok_iff validate_UserCreate_Inr validate_field_Inr)
  with assms show ?thesis by simp
qed

lemma app_POST_valid_rows:
  assumes "validate_UserCreate body = Inr u"
  shows "app s now (POST_users body) =
     (s\<lparr>rows := rows s @ [\<lparr>row_id = next_id s, row_name = name u, row_email = email u,
                             row_created_at = now\<rparr>],
        next_id := next_id s + 1\<rparr>,
      \<lparr>status_code = 201,
       content = JSON_User \<lparr>name = name u, email = email u, id' = next_id s,
                            created_at = Some now\<rparr>\<rparr>)"
  by (simp add: app_POST_valid[OF assms] create_user_db_eq to_User_def del: app.simps)

subsection \<open>Creating a user\<close>

text \<open>
  Claim C1. A body of \<^verbatim>\<open>POST /users/\<close> that is a JSON object whose \<^verbatim>\<open>name\<close> and \<^verbatim>\<open>email\<close>
  are texts of 1 to 100 characters is answered with 201 and the created user, which has
  the identifier and the creation time that the store assigned, and the store holds the
  new row after its earlier rows. Every other body (a field missing, empty, too long or
  not a text) is answered with 422 and a non-empty list of errors that validation computes
  from the body alone, and the store, hence its number of rows, is as before.
\<close>

theorem create_user_201_or_422:
  "(spec_body_ok body \<longrightarrow>
      (\<exists>kvs n e. body = Some (JObj kvs) \<and>
         dict_get kvs ''name'' = Some (JStr n) \<and> dict_get kvs ''email'' = Some (JStr e) \<and>
         app s now (POST_users body) =
           (s\<lparr>rows := rows s @ [\<lparr>row_id = next_id s, row_name = n, row_email = e,
                                   row_created_at = now\<rparr>],
              next_id := next_id s + 1\<rparr>,
            \<lparr>status_code = 201,
             content = JSON_User \<lparr>name = n, email = e, id' = next_id s,
                                  created_at = Some now\<rparr>\<rparr>))) \<and>
   (\<not> spec_body_ok body \<longrightarrow>
      (\<exists>errs. errs \<noteq> [] \<and> validate_UserCreate body = Inl errs \<and>
         app s now (POST_users body) = (s, \<lparr>status_code = 422, content = JSON_errors errs\<rparr>)) \<and>
      length (rows (fst (app s now (POST_users body)))) = length (rows s))"
proof (intro conjI impI)
  assume "spec_body_ok body"
  then obtain kvs n e where b: "body = Some (JObj kvs)"
    "dict_get kvs ''name'' = Some (JStr n)" "dict_get kvs ''email'' = Some (JStr e)"
    "validate_UserCreate body = Inr \<lparr>name = n, email = e\<rparr>"
    unfolding spec_body_ok_iff by blast
  show "\<exists>kvs n e. body = Some (JObj kvs) \<and>
         dict_get kvs ''name'' = Some (JStr n) \<and> dict_get kvs ''email'' = Some (JStr e) \<and>
         app s now (POST_users body) =
           (s\<lparr>rows := rows s @ [\<lparr>row_id = next_id s, row_name = n, row_email = e,
                                   row_created_at = now\<rparr>],
              next_id := next_id s + 1\<rparr>,
            \<lparr>status_code = 201,
             content = JSON_User \<lparr>name = n, email = e, id' = next_id s,
                                  created_at = Some now\<rparr>\<rparr>)"
    using b(1-3) app_POST_valid_rows[OF b(4), of s now] by auto
next
  assume n: "\<not> spec_body_ok body"
  then obtain errs where e: "validate_UserCreate body = Inl errs"
    using not_spec_body_ok by blast
  then have a: "app s now (POST_users body) = (s, \<lparr>status_code = 422, content = JSON_errors errs\<rparr>)"
    by (simp add: unprocessable_def)
  show "\<exists>errs. errs \<noteq> [] \<and> validate_UserCreate body = Inl errs \<and>
         app s now (POST_users body) = (s, \<lparr>status_code = 422, content = JSON_errors errs\<rparr>)"
    using e a validate_UserCreate_Inl_nonempty[OF e] by blast
  show "length (rows (fst (app s now (POST_users body)))) = length (rows s)"
    by (simp only: a fst_conv)
qed

theorem create_user_201_or_422_witness:
  "spec_body_ok ann_body \<and>
   app empty_store 1000 (POST_users ann_body) =
     (\<lparr>rows = [\<lparr>row_id = 1, row_name = ''Ann'', row_email = ''a@x.com'', row_created_at = 1000\<rparr>],
       next_id = 2\<rparr>,
      \<lparr>status_code = 201,
       content = JSON_User \<lparr>name = ''Ann'', email = ''a@x.com'', id' = 1,
                            created_at = Some 1000\<rparr>\<rparr>) \<and>
   \<not> spec_body_ok empty_name_body \<and>
   app one_user 1000 (POST_users empty_name_body) =
     (one_user, \<lparr>status_code = 422, content = JSON_errors [(''name'', string_too_short)]\<rparr>) \<and>
   \<not> spec_body_ok no_email_body \<and>
   app one_user 1000 (POST_users no_email_body) =
     (one_user, \<lparr>status_code = 422, content = JSON_errors [(''email'', missing)]\<rparr>) \<and>
   \<not> spec_body_ok long_name_body \<and>
   app one_user 1000 (POST_users long_name_body) =
     (one_user, \<lparr>status_code = 422, content = JSON_errors [(''name'', string_too_long)]\<rparr>)"
proof -
  have 1: "spec_body_ok ann_body"
    by (simp add: ann_body_def dict_get_def)
  have 2: "\<not> spec_body_ok empty_name_body"
    by (simp add: empty_name_body_def dict_get_def)
  have 3: "\<not> spec_body_ok no_email_body"
    by (simp add: no_email_body_def dict_get_def)
  have 4: "\<not> spec_body_ok long_name_body"
    by (simp add: long_name_body_def dict_get_def)
  have v2: "validate_UserCreate empty_name_body = Inl [(''name'', string_too_short)]"
    by (simp add: empty_name_body_def validate_UserCreate_def validate_field_def dict_get_def
          check_length_def min_length_def max_length_def)
  have v3: "validate_UserCreate no_email_body = Inl [(''email'', missing)]"
    by (simp add: no_email_body_def validate_UserCreate_def validate_field_def dict_get_def
          check_length_def min_length_def max_length_def)
  have v4: "validate_UserCreate long_name_body = Inl [(''name'', string_too_long)]"
    by (simp add: long_name_body_def validate_UserCreate_def validate_field_def dict_get_def
          check_length_def min_length_def max_length_def)
  from create_user_201_or_422[of ann_body empty_store 1000] 1
  have a1: "app empty_store 1000 (POST_users ann_body) =
     (\<lparr>rows = [\<lparr>row_id = 1, row_name = ''Ann'', row_email = ''a@x.com'', row_created_at = 1000\<rparr>],
       next_id = 2\<rparr>,
      \<lparr>status_code = 201,
       content = JSON_User \<lparr>name = ''Ann'', email = ''a@x.com'', id' = 1,
                            created_at = Some 1000\<rparr>\<rparr>)"
    by (auto simp: ann_body_def dict_get_def empty_store_def simp del: app.simps)
  from create_user_201_or_422[of empty_name_body one_user 1000] 2 v2
  have a2: "app one_user 1000 (POST_users empty_name_body) =
     (one_user, \<lparr>status_code = 422, content = JSON_errors [(''name'', string_too_short)]\<rparr>)"
    by (auto simp del: app.simps)
  from create_user_201_or_422[of no_email_body one_user 1000] 3 v3
  have a3: "app one_user 1000 (POST_users no_email_body) =
     (one_user, \<lparr>status_code = 422, content = JSON_errors [(''email'', missing)]\<rparr>)"
    by (auto simp del: app.simps)
  from create_user_201_or_422[of long_name_body one_user 1000] 4 v4
  have a4: "app one_user 1000 (POST_users long_name_body) =
     (one_user, \<lparr>status_code = 422, content = JSON_errors [(''name'', string_too_long)]\<rparr>)"
    by (auto simp del: app.simps)
  from 1 2 3 4 a1 a2 a3 a4 show ?thesis by blast
qed

subsection \<open>Reading back a created user\<close>

lemma get_user_db_after_create:
  assumes "store_inv s"
  shows "get_user_db (fst (create_user_db s now u)) (row_id (snd (create_user_db s now u))) =
           Some (snd (create_user_db s now u))"
proof -
  have "\<forall>r \<in> set (rows s). \<not> row_id r = next_id s"
    using assms by (auto simp: store_inv_def list_all_iff)
  then show ?thesis
    by (simp add: create_user_db_eq get_user_db_def objects_get_def find_snoc_new)
qed

text \<open>
  Claim C3. In a store that satisfies the invariant, the row that \<open>create_user_db\<close>
  returns is the row that \<open>get_user_db\<close> finds, in the store after the creation, under
  the identifier of the returned row: identifier, name, email and creation time are the
  same. Through the routes: the user in the 201 answer to a valid \<^verbatim>\<open>POST /users/\<close> is
  the user in the 200 answer to \<^verbatim>\<open>GET /users/{id}\<close> with the identifier of that answer.
\<close>

theorem get_returns_created_user:
  assumes "store_inv s"
  shows "get_user_db (fst (create_user_db s now user_data))
           (row_id (snd (create_user_db s now user_data))) =
           Some (snd (create_user_db s now user_data)) \<and>
         (validate_UserCreate body = Inr user_data \<longrightarrow>
            (\<exists>s' u. app s now (POST_users body) = (s', \<lparr>status_code = 201, content = JSON_User u\<rparr>) \<and>
               app s' later (GET_user (id' u)) =
                 (s', \<lparr>status_code = 200, content = JSON_User u\<rparr>)))"
proof (intro conjI impI)
  show g: "get_user_db (fst (create_user_db s now user_data))
           (row_id (snd (create_user_db s now user_data))) =
           Some (snd (create_user_db s now user_data))"
    using assms by (rule get_user_db_after_create)
  assume v: "validate_UserCreate body = Inr user_data"
  define s' where "s' = fst (create_user_db s now user_data)"
  define r where "r = snd (create_user_db s now user_data)"
  have inv': "store_inv s'"
    unfolding s'_def using assms validate_UserCreate_lengths[OF v] by (simp add: store_inv_create)
  have post: "app s now (POST_users body) =
      (s', \<lparr>status_code = 201, content = JSON_User (to_User r)\<rparr>)"
    unfolding s'_def r_def using v by (rule app_POST_valid)
  have "get_user_db s' (row_id r) = Some r"
    using g by (simp add: s'_def r_def)
  then have "app s' later (GET_user (row_id r)) =
      (s', \<lparr>status_code = 200, content = JSON_User (to_User r)\<rparr>)"
    using inv' by (simp add: app_GET_user_present del: app.simps)
  then have "app s' later (GET_user (id' (to_User r))) =
      (s', \<lparr>status_code = 200, content = JSON_User (to_User r)\<rparr>)"
    by (simp add: to_User_def)
  with post show "\<exists>s' u. app s now (POST_users body) =
        (s', \<lparr>status_code = 201, content = JSON_User u\<rparr>) \<and>
      app s' later (GET_user (id' u)) = (s', \<lparr>status_code = 200, content = JSON_User u\<rparr>)"
    by blast
qed

lemma validate_bob_body: "validate_UserCreate bob_body = Inr bob"
  by (simp add: bob_body_def bob_def validate_UserCreate_def validate_field_def dict_get_def
        check_length_def min_length_def max_length_def)

lemma create_bob: "create_user_db one_user 2000 bob = (two_users, bob_row)"
  by (simp add: create_user_db_eq one_user_def two_users_def bob_def bob_row_def)

theorem get_returns_created_user_witness:
  "store_inv one_user \<and> validate_UserCreate bob_body = Inr bob \<and>
   create_user_db one_user 2000 bob = (two_users, bob_row) \<and>
   get_user_db two_users 2 = Some bob_row \<and>
   (\<exists>u. app one_user 2000 (POST_users bob_body) =
           (two_users, \<lparr>status_code = 201, content = JSON_User u\<rparr>) \<and>
        app two_users 3000 (GET_user (id' u)) =
           (two_users, \<lparr>status_code = 200, content = JSON_User u\<rparr>))"
proof -
  note t = get_returns_created_user[OF store_inv_one_user, of 2000 bob bob_body 3000]
  have g: "get_user_db two_users 2 = Some bob_row"
    using t by (simp add: create_bob bob_row_def)
  obtain s' u where p: "app one_user 2000 (POST_users bob_body) =
        (s', \<lparr>status_code = 201, content = JSON_User u\<rparr>)"
      "app s' 3000 (GET_user (id' u)) = (s', \<lparr>status_code = 200, content = JSON_User u\<rparr>)"
    using t validate_bob_body by blast
  have "s' = two_users"
    using p(1) app_POST_valid[OF validate_bob_body, of one_user 2000] by (simp add: create_bob)
  with p have "\<exists>u. app one_user 2000 (POST_users bob_body) =
           (two_users, \<lparr>status_code = 201, content = JSON_User u\<rparr>) \<and>
        app two_users 3000 (GET_user (id' u)) =
           (two_users, \<lparr>status_code = 200, content = JSON_User u\<rparr>)"
    by blast
  with g show ?thesis
    using store_inv_one_user validate_bob_body create_bob by blast
qed

subsection \<open>Listing the users\<close>

lemma serve_Cons:
  "app s now rq = (s1, r) \<Longrightarrow> serve s ((now, rq) # rqs) = (fst (serve s1 rqs), r # snd (serve s1 rqs))"
  by (simp add: split_beta)

lemma app_POST_inserted:
  assumes "validate_UserCreate body = Inr u"
  shows "app s now (POST_users body) =
           (inserted s now u, \<lparr>status_code = 201, content = JSON_User (created s now u)\<rparr>)"
  by (simp add: app_POST_valid_rows[OF assms] inserted_def created_def create_user_db_eq
        del: app.simps)

lemma store_inv_inserted:
  "store_inv s \<Longrightarrow> validate_UserCreate body = Inr u \<Longrightarrow> store_inv (inserted s now u)"
  by (simp add: inserted_def store_inv_create validate_UserCreate_lengths)

lemma rows_inserted:
  "map to_User (rows (inserted s now u)) = map to_User (rows s) @ [created s now u]"
  by (simp add: inserted_def create_user_db_eq created_def to_User_def)

lemma next_id_inserted: "next_id (inserted s now u) = next_id s + 1"
  by (simp add: inserted_def create_user_db_eq)

text \<open>
  Claim C4. In a store that satisfies the invariant, \<^verbatim>\<open>GET /users/\<close> answers 200 with
  every row of the store, in the order of the rows, which is the order of insertion and
  the increasing order of the identifiers; the store is as before. Three valid
  \<^verbatim>\<open>POST /users/\<close> requests followed by \<^verbatim>\<open>GET /users/\<close> are answered with the three created
  users and with the list of the users held before followed by those three, in the
  order of their creation.
\<close>

theorem read_users_in_insertion_order:
  assumes "store_inv s"
  shows "app s now GET_users =
           (s, \<lparr>status_code = 200, content = JSON_Users (map to_User (rows s))\<rparr>) \<and>
         sorted_wrt (<) (map id' (map to_User (rows s))) \<and>
         (validate_UserCreate b1 = Inr n1 \<and> validate_UserCreate b2 = Inr n2 \<and>
          validate_UserCreate b3 = Inr n3 \<longrightarrow>
            snd (serve s [(t1, POST_users b1), (t2, POST_users b2), (t3, POST_users b3),
                          (t4, GET_users)]) =
              [\<lparr>status_code = 201, content = JSON_User
                  \<lparr>name = name n1, email = email n1, id' = next_id s, created_at = Some t1\<rparr>\<rparr>,
               \<lparr>status_code = 201, content = JSON_User
                  \<lparr>name = name n2, email = email n2, id' = next_id s + 1, created_at = Some t2\<rparr>\<rparr>,
               \<lparr>status_code = 201, content = JSON_User
                  \<lparr>name = name n3, email = email n3, id' = next_id s + 2, created_at = Some t3\<rparr>\<rparr>,
               \<lparr>status_code = 200, content = JSON_Users
                  (map to_User (rows s) @
                   [\<lparr>name = name n1, email = email n1, id' = next_id s, created_at = Some t1\<rparr>,
                    \<lparr>name = name n2, email = email n2, id' = next_id s + 1, created_at = Some t2\<rparr>,
                    \<lparr>name = name n3, email = email n3, id' = next_id s + 2,
                      created_at = Some t3\<rparr>])\<rparr>])"
proof (intro conjI impI)
  show "app s now GET_users =
      (s, \<lparr>status_code = 200, content = JSON_Users (map to_User (rows s))\<rparr>)"
    using assms by (rule app_GET_users)
  have "id' \<circ> to_User = row_id"
    by (simp add: fun_eq_iff to_User_def)
  then have "map id' (map to_User (rows s)) = map row_id (rows s)"
    by simp
  then show "sorted_wrt (<) (map id' (map to_User (rows s)))"
    using assms by (simp only: store_inv_def)
next
  assume "validate_UserCreate b1 = Inr n1 \<and> validate_UserCreate b2 = Inr n2 \<and>
          validate_UserCreate b3 = Inr n3"
  then have v: "validate_UserCreate b1 = Inr n1" "validate_UserCreate b2 = Inr n2"
    "validate_UserCreate b3 = Inr n3" by simp_all
  define s1 where "s1 = inserted s t1 n1"
  define s2 where "s2 = inserted s1 t2 n2"
  define s3 where "s3 = inserted s2 t3 n3"
  have inv: "store_inv s1" "store_inv s2" "store_inv s3"
    using assms v by (simp_all add: s1_def s2_def s3_def store_inv_inserted)
  have p1: "app s t1 (POST_users b1) =
      (s1, \<lparr>status_code = 201, content = JSON_User (created s t1 n1)\<rparr>)"
    unfolding s1_def using v(1) by (rule app_POST_inserted)
  have p2: "app s1 t2 (POST_users b2) =
      (s2, \<lparr>status_code = 201, content = JSON_User (created s1 t2 n2)\<rparr>)"
    unfolding s2_def using v(2) by (rule app_POST_inserted)
  have p3: "app s2 t3 (POST_users b3) =
      (s3, \<lparr>status_code = 201, content = JSON_User (created s2 t3 n3)\<rparr>)"
    unfolding s3_def using v(3) by (rule app_POST_inserted)
  have g: "app s3 t4 GET_users =
      (s3, \<lparr>status_code = 200, content = JSON_Users (map to_User (rows s3))\<rparr>)"
    using inv(3) by (rule app_GET_users)
  have l: "map to_User (rows s3) =
      map to_User (rows s) @ [created s t1 n1, created s1 t2 n2, created s2 t3 n3]"
    by (simp add: s3_def s2_def s1_def rows_inserted)
  have ids: "next_id s1 = next_id s + 1" "next_id s2 = next_id s + 2"
    by (simp_all add: s1_def s2_def next_id_inserted)
  have "snd (serve s [(t1, POST_users b1), (t2, POST_users b2), (t3, POST_users b3),
                      (t4, GET_users)]) =
      [\<lparr>status_code = 201, content = JSON_User (created s t1 n1)\<rparr>,
       \<lparr>status_code = 201, content = JSON_User (created s1 t2 n2)\<rparr>,
       \<lparr>status_code = 201, content = JSON_User (created s2 t3 n3)\<rparr>,
       \<lparr>status_code = 200, content = JSON_Users (map to_User (rows s3))\<rparr>]"
    by (simp add: serve_Cons[OF p1] serve_Cons[OF p2] serve_Cons[OF p3] serve_Cons[OF g]
          del: app.simps serve.simps(2))
  then show "snd (serve s [(t1, POST_users b1), (t2, POST_users b2), (t3, POST_users b3),
                          (t4, GET_users)]) =
              [\<lparr>status_code = 201, content = JSON_User
                  \<lparr>name = name n1, email = email n1, id' = next_id s, created_at = Some t1\<rparr>\<rparr>,
               \<lparr>status_code = 201, content = JSON_User
                  \<lparr>name = name n2, email = email n2, id' = next_id s + 1, created_at = Some t2\<rparr>\<rparr>,
               \<lparr>status_code = 201, content = JSON_User
                  \<lparr>name = name n3, email = email n3, id' = next_id s + 2, created_at = Some t3\<rparr>\<rparr>,
               \<lparr>status_code = 200, content = JSON_Users
                  (map to_User (rows s) @
                   [\<lparr>name = name n1, email = email n1, id' = next_id s, created_at = Some t1\<rparr>,
                    \<lparr>name = name n2, email = email n2, id' = next_id s + 1, created_at = Some t2\<rparr>,
                    \<lparr>name = name n3, email = email n3, id' = next_id s + 2,
                      created_at = Some t3\<rparr>])\<rparr>]"
    by (simp only: l) (simp add: created_def ids)
qed

lemma validate_ann_body: "validate_UserCreate ann_body = Inr ann_create"
  by (simp add: ann_body_def ann_create_def validate_UserCreate_def validate_field_def dict_get_def
        check_length_def min_length_def max_length_def)

lemma validate_cat_body: "validate_UserCreate cat_body = Inr cat"
  by (simp add: cat_body_def cat_def validate_UserCreate_def validate_field_def dict_get_def
        check_length_def min_length_def max_length_def)

theorem read_users_in_insertion_order_witness:
  "store_inv empty_store \<and>
   app empty_store 5 GET_users = (empty_store, \<lparr>status_code = 200, content = JSON_Users []\<rparr>) \<and>
   validate_UserCreate ann_body = Inr ann_create \<and> validate_UserCreate bob_body = Inr bob \<and>
   validate_UserCreate cat_body = Inr cat \<and>
   snd (serve empty_store [(1000, POST_users ann_body), (2000, POST_users bob_body),
                           (3000, POST_users cat_body), (4000, GET_users)]) =
     [\<lparr>status_code = 201, content = JSON_User
         \<lparr>name = ''Ann'', email = ''a@x.com'', id' = 1, created_at = Some 1000\<rparr>\<rparr>,
      \<lparr>status_code = 201, content = JSON_User
         \<lparr>name = ''Bob'', email = ''b@x.com'', id' = 2, created_at = Some 2000\<rparr>\<rparr>,
      \<lparr>status_code = 201, content = JSON_User
         \<lparr>name = ''Cat'', email = ''c@x.com'', id' = 3, created_at = Some 3000\<rparr>\<rparr>,
      \<lparr>status_code = 200, content = JSON_Users
         [\<lparr>name = ''Ann'', email = ''a@x.com'', id' = 1, created_at = Some 1000\<rparr>,
          \<lparr>name = ''Bob'', email = ''b@x.com'', id' = 2, created_at = Some 2000\<rparr>,
          \<lparr>name = ''Cat'', email = ''c@x.com'', id' = 3, created_at = Some 3000\<rparr>]\<rparr>]"
proof -
  note t = read_users_in_insertion_order[OF store_inv_empty,
      of 5 ann_body ann_create bob_body bob cat_body cat 1000 2000 3000 4000]
  have a: "app empty_store 5 GET_users =
      (empty_store, \<lparr>status_code = 200, content = JSON_Users []\<rparr>)"
    using t by (simp add: empty_store_def del: app.simps)
  have b: "snd (serve empty_store [(1000, POST_users ann_body), (2000, POST_users bob_body),
                           (3000, POST_users cat_body), (4000, GET_users)]) =
     [\<lparr>status_code = 201, content = JSON_User
         \<lparr>name = ''Ann'', email = ''a@x.com'', id' = 1, created_at = Some 1000\<rparr>\<rparr>,
      \<lparr>status_code = 201, content = JSON_User
         \<lparr>name = ''Bob'', email = ''b@x.com'', id' = 2, created_at = Some 2000\<rparr>\<rparr>,
      \<lparr>status_code = 201, content = JSON_User
         \<lparr>name = ''Cat'', email = ''c@x.com'', id' = 3, created_at = Some 3000\<rparr>\<rparr>,
      \<lparr>status_code = 200, content = JSON_Users
         [\<lparr>name = ''Ann'', email = ''a@x.com'', id' = 1, created_at = Some 1000\<rparr>,
          \<lparr>name = ''Bob'', email = ''b@x.com'', id' = 2, created_at = Some 2000\<rparr>,
          \<lparr>name = ''Cat'', email = ''c@x.com'', id' = 3, created_at = Some 3000\<rparr>]\<rparr>]"
    using t validate_ann_body validate_bob_body validate_cat_body
    by (simp add: empty_store_def ann_create_def bob_def cat_def del: app.simps serve.simps)
  show ?thesis
    using a b store_inv_empty validate_ann_body validate_bob_body validate_cat_body by blast
qed

subsection \<open>Updating a user\<close>




lemma get_ann: "get_user_db two_users 1 = Some ann"
  by (simp add: get_user_db_def objects_get_def two_users_def ann_def)


text \<open>
  Claim C6. When the store holds no record with the identifier \<open>user_id\<close>, the update
  finds nothing: \<open>update_user_db\<close> returns \<open>None\<close>, the endpoint function raises the
  404 \<^verbatim>\<open>User not found\<close>, and \<^verbatim>\<open>PUT /users/{id}\<close> with a valid body is answered with it.
  Whatever the body, the store after the request is the store before it, and so is the
  list of users.
\<close>

theorem update_absent_user_is_404_and_no_write:
  assumes "\<forall>r \<in> set (rows s). row_id r \<noteq> user_id"
  shows "update_user_db s user_id user_in = (s, None) \<and>
         update_user s user_id user_in = (s, Inl (HTTPException 404 ''User not found'')) \<and>
         (validate_UserCreate body = Inr user_in \<longrightarrow>
            app s now (PUT_user user_id body) =
              (s, \<lparr>status_code = 404, content = JSON_detail ''User not found''\<rparr>)) \<and>
         fst (app s now (PUT_user user_id body)) = s \<and>
         get_all_users_db (fst (app s now (PUT_user user_id body))) = get_all_users_db s"
proof -
  have g: "get_user_db s user_id = None"
    using assms by (simp add: get_user_db_None)
  have 1: "update_user_db s user_id user_in = (s, None)"
    using g by (rule update_user_db_None)
  have 2: "update_user s user_id user_in = (s, Inl (HTTPException 404 ''User not found''))"
    by (simp add: update_user_def 1)
  have 3: "validate_UserCreate body = Inr user_in \<longrightarrow>
            app s now (PUT_user user_id body) =
              (s, \<lparr>status_code = 404, content = JSON_detail ''User not found''\<rparr>)"
    using g by (simp add: app_PUT_absent del: app.simps)
  have 4: "fst (app s now (PUT_user user_id body)) = s"
  proof (cases "validate_UserCreate body")
    case (Inl errs)
    then show ?thesis by (simp add: app_PUT_invalid del: app.simps)
  next
    case (Inr u)
    then show ?thesis using g by (simp add: app_PUT_absent del: app.simps)
  qed
  from 1 2 3 4 show ?thesis by simp
qed

theorem update_absent_user_is_404_and_no_write_witness:
  "get_user_db two_users 7 = None \<and>
   validate_UserCreate cat_body = Inr cat \<and>
   update_user_db two_users 7 cat = (two_users, None) \<and>
   app two_users 5000 (PUT_user 7 cat_body) =
     (two_users, \<lparr>status_code = 404, content = JSON_detail ''User not found''\<rparr>) \<and>
   get_all_users_db (fst (app two_users 5000 (PUT_user 7 cat_body))) = [ann, bob_row]"
proof -
  have g: "get_user_db two_users 7 = None"
    by (simp add: get_user_db_def objects_get_def two_users_def ann_def bob_row_def)
  then have h: "\<forall>r \<in> set (rows two_users). row_id r \<noteq> 7"
    by (simp only: get_user_db_None)
  note t = update_absent_user_is_404_and_no_write[OF h, of cat cat_body 5000]
  have l: "get_all_users_db two_users = [ann, bob_row]"
    by (simp add: get_all_users_db_def objects_all_def two_users_def)
  show ?thesis
    using t g validate_cat_body l by (simp del: app.simps)
qed

subsection \<open>Deleting a user\<close>

lemma rows_after_delete:
  "rows (fst (delete_user_db s i)) = filter (\<lambda>x. row_id x \<noteq> i) (rows s)"
proof (cases "get_user_db s i")
  case None
  then have "\<forall>r \<in> set (rows s). row_id r \<noteq> i" by (simp add: get_user_db_None)
  then have "filter (\<lambda>x. row_id x \<noteq> i) (rows s) = rows s" by (simp add: filter_id_conv)
  then show ?thesis using None by (simp add: delete_user_db_None)
next
  case (Some r)
  then show ?thesis by (simp add: delete_user_db_Some)
qed

text \<open>
  Claim C7. \<open>delete_user_db\<close> returns \<open>True\<close> exactly when the store holds a record with
  the identifier \<open>user_id\<close>; the store then loses the records with that identifier and
  keeps every other record, in order. It returns \<open>False\<close> otherwise, and the store is as
  before. After the deletion a lookup of \<open>user_id\<close> finds nothing, the list of users has
  no record with that identifier, and \<^verbatim>\<open>GET /users/{id}\<close> is answered with 404.
  \<^verbatim>\<open>DELETE /users/{id}\<close> is answered with 204 and no content in the first case and with 404
  in the second.
\<close>

theorem delete_user_removes_existing:
  "snd (delete_user_db s user_id) = (\<exists>r \<in> set (rows s). row_id r = user_id) \<and>
   (\<not> snd (delete_user_db s user_id) \<longrightarrow> fst (delete_user_db s user_id) = s) \<and>
   rows (fst (delete_user_db s user_id)) = filter (\<lambda>x. row_id x \<noteq> user_id) (rows s) \<and>
   next_id (fst (delete_user_db s user_id)) = next_id s \<and>
   get_user_db (fst (delete_user_db s user_id)) user_id = None \<and>
   (\<forall>r \<in> set (get_all_users_db (fst (delete_user_db s user_id))). row_id r \<noteq> user_id) \<and>
   app s now (DELETE_user user_id) =
     (fst (delete_user_db s user_id),
      if snd (delete_user_db s user_id) then \<lparr>status_code = 204, content = No_content\<rparr>
      else \<lparr>status_code = 404, content = JSON_detail ''User not found''\<rparr>) \<and>
   app (fst (delete_user_db s user_id)) later (GET_user user_id) =
     (fst (delete_user_db s user_id),
      \<lparr>status_code = 404, content = JSON_detail ''User not found''\<rparr>)"
proof -
  define s' where "s' = fst (delete_user_db s user_id)"
  have rs: "rows s' = filter (\<lambda>x. row_id x \<noteq> user_id) (rows s)"
    unfolding s'_def by (rule rows_after_delete)
  have g: "get_user_db s' user_id = None"
    by (simp add: get_user_db_None rs)
  have l: "\<forall>r \<in> set (get_all_users_db s'). row_id r \<noteq> user_id"
    by (simp add: get_all_users_db_def objects_all_def rs)
  have r404: "app s' later (GET_user user_id) =
      (s', \<lparr>status_code = 404, content = JSON_detail ''User not found''\<rparr>)"
    using g by (rule app_GET_user_absent)
  have rest: "snd (delete_user_db s user_id) = (\<exists>r \<in> set (rows s). row_id r = user_id) \<and>
      (\<not> snd (delete_user_db s user_id) \<longrightarrow> s' = s) \<and> next_id s' = next_id s \<and>
      app s now (DELETE_user user_id) =
        (s', if snd (delete_user_db s user_id) then \<lparr>status_code = 204, content = No_content\<rparr>
             else \<lparr>status_code = 404, content = JSON_detail ''User not found''\<rparr>)"
  proof (cases "get_user_db s user_id")
    case None
    then have "\<not> (\<exists>r \<in> set (rows s). row_id r = user_id)"
      by (simp add: get_user_db_None)
    then show ?thesis
      using None by (simp add: s'_def delete_user_db_None app_DELETE_absent del: app.simps)
  next
    case (Some r)
    then have "\<exists>r \<in> set (rows s). row_id r = user_id"
      using get_user_db_Some by blast
    then show ?thesis
      using Some by (simp add: s'_def delete_user_db_Some app_DELETE_present del: app.simps)
  qed
  show ?thesis
    using rs g l r404 rest unfolding s'_def by blast
qed

theorem delete_user_removes_existing_witness:
  "delete_user_db two_users 1 = (\<lparr>rows = [bob_row], next_id = 3\<rparr>, True) \<and>
   app two_users 5000 (DELETE_user 1) =
     (\<lparr>rows = [bob_row], next_id = 3\<rparr>, \<lparr>status_code = 204, content = No_content\<rparr>) \<and>
   app \<lparr>rows = [bob_row], next_id = 3\<rparr> 6000 (GET_user 1) =
     (\<lparr>rows = [bob_row], next_id = 3\<rparr>,
      \<lparr>status_code = 404, content = JSON_detail ''User not found''\<rparr>) \<and>
   delete_user_db two_users 7 = (two_users, False) \<and>
   app two_users 5000 (DELETE_user 7) =
     (two_users, \<lparr>status_code = 404, content = JSON_detail ''User not found''\<rparr>)"
proof -
  have e: "two_users\<lparr>rows := filter (\<lambda>x. row_id x \<noteq> 1) (rows two_users)\<rparr> =
      \<lparr>rows = [bob_row], next_id = 3\<rparr>"
    by (simp add: two_users_def ann_def bob_row_def)
  have d1: "delete_user_db two_users 1 = (\<lparr>rows = [bob_row], next_id = 3\<rparr>, True)"
    by (simp only: delete_user_db_Some[OF get_ann] e)
  have g7: "get_user_db two_users 7 = None"
    by (simp add: get_user_db_def objects_get_def two_users_def ann_def bob_row_def)
  have d7: "delete_user_db two_users 7 = (two_users, False)"
    using g7 by (rule delete_user_db_None)
  note t1 = delete_user_removes_existing[of two_users 1 5000 6000, unfolded d1 fst_conv snd_conv]
  note t7 = delete_user_removes_existing[of two_users 7 5000 6000, unfolded d7 fst_conv snd_conv]
  have a1: "app two_users 5000 (DELETE_user 1) =
     (\<lparr>rows = [bob_row], next_id = 3\<rparr>, \<lparr>status_code = 204, content = No_content\<rparr>)"
    using t1 by (simp only: if_True)
  have g1: "app \<lparr>rows = [bob_row], next_id = 3\<rparr> 6000 (GET_user 1) =
     (\<lparr>rows = [bob_row], next_id = 3\<rparr>,
      \<lparr>status_code = 404, content = JSON_detail ''User not found''\<rparr>)"
    using t1 by (simp only:)
  have a7: "app two_users 5000 (DELETE_user 7) =
     (two_users, \<lparr>status_code = 404, content = JSON_detail ''User not found''\<rparr>)"
    using t7 by (simp only: if_False)
  from d1 a1 g1 d7 a7 show ?thesis by (intro conjI)
qed

subsection \<open>What the operations leave alone\<close>












subsection \<open>Fields of the body that are not declared\<close>

lemma validate_field_cong:
  "dict_get kvs loc = dict_get kvs' loc \<Longrightarrow> validate_field kvs loc = validate_field kvs' loc"
  by (simp add: validate_field_def)

lemma validate_UserCreate_cong:
  assumes "dict_get kvs ''name'' = dict_get kvs' ''name''"
    and "dict_get kvs ''email'' = dict_get kvs' ''email''"
  shows "validate_UserCreate (Some (JObj kvs)) = validate_UserCreate (Some (JObj kvs'))"
  by (simp add: validate_UserCreate_def validate_field_cong[OF assms(1)]
        validate_field_cong[OF assms(2)])

text \<open>
  Claim C10. \<^verbatim>\<open>POST /users/\<close> reads the \<^verbatim>\<open>name\<close> and the \<^verbatim>\<open>email\<close> member of the body and
  nothing else. Two bodies that are JSON objects with the same \<^verbatim>\<open>name\<close> and the same
  \<^verbatim>\<open>email\<close> member have the same effect on the store and the same answer, whatever other
  members they have. When the two members are texts of 1 to 100 characters the answer is
  201, and the stored row and the answer have that name and that email, the store's next
  identifier and the store's reading of the clock. Conversely, whenever the answer is
  201, the name and email of the created user are the \<^verbatim>\<open>name\<close> and \<^verbatim>\<open>email\<close> members of the
  body, its identifier and creation time are those of the store, and the store after the
  request is the store before it with that one row added.
\<close>

theorem create_user_ignores_other_fields:
  assumes "dict_get kvs ''name'' = dict_get kvs' ''name''"
    and "dict_get kvs ''email'' = dict_get kvs' ''email''"
  shows "app s now (POST_users (Some (JObj kvs))) = app s now (POST_users (Some (JObj kvs'))) \<and>
         (\<forall>n e. dict_get kvs ''name'' = Some (JStr n) \<and> dict_get kvs ''email'' = Some (JStr e) \<and>
                1 \<le> length n \<and> length n \<le> 100 \<and> 1 \<le> length e \<and> length e \<le> 100 \<longrightarrow>
            app s now (POST_users (Some (JObj kvs))) =
              (s\<lparr>rows := rows s @ [\<lparr>row_id = next_id s, row_name = n, row_email = e,
                                      row_created_at = now\<rparr>],
                 next_id := next_id s + 1\<rparr>,
               \<lparr>status_code = 201,
                content = JSON_User \<lparr>name = n, email = e, id' = next_id s,
                                     created_at = Some now\<rparr>\<rparr>)) \<and>
         (\<forall>s' u. app s now (POST_users (Some (JObj kvs))) =
                   (s', \<lparr>status_code = 201, content = JSON_User u\<rparr>) \<longrightarrow>
            dict_get kvs ''name'' = Some (JStr (name u)) \<and>
            dict_get kvs ''email'' = Some (JStr (email u)) \<and>
            id' u = next_id s \<and> created_at u = Some now \<and>
            s' = s\<lparr>rows := rows s @ [\<lparr>row_id = next_id s, row_name = name u,
                                      row_email = email u, row_created_at = now\<rparr>],
                   next_id := next_id s + 1\<rparr>)"
proof (intro conjI)
  show "app s now (POST_users (Some (JObj kvs))) = app s now (POST_users (Some (JObj kvs')))"
    by (simp add: validate_UserCreate_cong[OF assms])
next
  show "\<forall>n e. dict_get kvs ''name'' = Some (JStr n) \<and> dict_get kvs ''email'' = Some (JStr e) \<and>
                1 \<le> length n \<and> length n \<le> 100 \<and> 1 \<le> length e \<and> length e \<le> 100 \<longrightarrow>
            app s now (POST_users (Some (JObj kvs))) =
              (s\<lparr>rows := rows s @ [\<lparr>row_id = next_id s, row_name = n, row_email = e,
                                      row_created_at = now\<rparr>],
                 next_id := next_id s + 1\<rparr>,
               \<lparr>status_code = 201,
                content = JSON_User \<lparr>name = n, email = e, id' = next_id s,
                                     created_at = Some now\<rparr>\<rparr>)"
  proof (intro allI impI)
    fix n e
    assume h: "dict_get kvs ''name'' = Some (JStr n) \<and> dict_get kvs ''email'' = Some (JStr e) \<and>
                1 \<le> length n \<and> length n \<le> 100 \<and> 1 \<le> length e \<and> length e \<le> 100"
    then have "validate_field kvs ''name'' = Inr n" "validate_field kvs ''email'' = Inr e"
      by (simp_all add: validate_field_Inr check_length_None)
    then have v: "validate_UserCreate (Some (JObj kvs)) = Inr \<lparr>name = n, email = e\<rparr>"
      by (simp add: validate_UserCreate_Inr)
    show "app s now (POST_users (Some (JObj kvs))) =
              (s\<lparr>rows := rows s @ [\<lparr>row_id = next_id s, row_name = n, row_email = e,
                                      row_created_at = now\<rparr>],
                 next_id := next_id s + 1\<rparr>,
               \<lparr>status_code = 201,
                content = JSON_User \<lparr>name = n, email = e, id' = next_id s,
                                     created_at = Some now\<rparr>\<rparr>)"
      using app_POST_valid_rows[OF v, of s now] by (simp del: app.simps)
  qed
next
  show "\<forall>s' u. app s now (POST_users (Some (JObj kvs))) =
                   (s', \<lparr>status_code = 201, content = JSON_User u\<rparr>) \<longrightarrow>
            dict_get kvs ''name'' = Some (JStr (name u)) \<and>
            dict_get kvs ''email'' = Some (JStr (email u)) \<and>
            id' u = next_id s \<and> created_at u = Some now \<and>
            s' = s\<lparr>rows := rows s @ [\<lparr>row_id = next_id s, row_name = name u,
                                      row_email = email u, row_created_at = now\<rparr>],
                   next_id := next_id s + 1\<rparr>"
  proof (intro allI impI)
    fix s' u
    assume a: "app s now (POST_users (Some (JObj kvs))) =
        (s', \<lparr>status_code = 201, content = JSON_User u\<rparr>)"
    show "dict_get kvs ''name'' = Some (JStr (name u)) \<and>
        dict_get kvs ''email'' = Some (JStr (email u)) \<and>
        id' u = next_id s \<and> created_at u = Some now \<and>
        s' = s\<lparr>rows := rows s @ [\<lparr>row_id = next_id s, row_name = name u,
                                  row_email = email u, row_created_at = now\<rparr>],
               next_id := next_id s + 1\<rparr>"
    proof (cases "validate_UserCreate (Some (JObj kvs))")
      case (Inl errs)
      have "app s now (POST_users (Some (JObj kvs))) = (s, unprocessable errs)"
        using Inl by (rule app_POST_invalid)
      then have "status_code (unprocessable errs) = 201"
        using a by simp
      then show ?thesis
        by (simp add: unprocessable_def)
    next
      case (Inr v)
      have d: "dict_get kvs ''name'' = Some (JStr (name v))"
        "dict_get kvs ''email'' = Some (JStr (email v))"
        using Inr by (simp_all add: validate_UserCreate_Inr validate_field_Inr)
      have "(s', \<lparr>status_code = 201, content = JSON_User u\<rparr>) =
          (s\<lparr>rows := rows s @ [\<lparr>row_id = next_id s, row_name = name v, row_email = email v,
                                   row_created_at = now\<rparr>],
             next_id := next_id s + 1\<rparr>,
           \<lparr>status_code = 201,
            content = JSON_User \<lparr>name = name v, email = email v, id' = next_id s,
                                 created_at = Some now\<rparr>\<rparr>)"
        using a app_POST_valid_rows[OF Inr, of s now] by (simp only:)
      then have "s' = s\<lparr>rows := rows s @ [\<lparr>row_id = next_id s, row_name = name v,
                                   row_email = email v, row_created_at = now\<rparr>],
             next_id := next_id s + 1\<rparr>"
        and "u = \<lparr>name = name v, email = email v, id' = next_id s, created_at = Some now\<rparr>"
        by simp_all
      then show ?thesis
        using d by simp
    qed
  qed
qed

theorem create_user_ignores_other_fields_witness:
  "dict_get ann_body_extra ''name'' = dict_get ann_body_plain ''name'' \<and>
   dict_get ann_body_extra ''email'' = dict_get ann_body_plain ''email'' \<and>
   dict_get ann_body_extra ''name'' = Some (JStr ''Ann'') \<and>
   dict_get ann_body_extra ''email'' = Some (JStr ''a@x.com'') \<and>
   app empty_store 1000 (POST_users (Some (JObj ann_body_extra))) =
     app empty_store 1000 (POST_users (Some (JObj ann_body_plain))) \<and>
   app empty_store 1000 (POST_users (Some (JObj ann_body_extra))) =
     (\<lparr>rows = [\<lparr>row_id = 1, row_name = ''Ann'', row_email = ''a@x.com'', row_created_at = 1000\<rparr>],
       next_id = 2\<rparr>,
      \<lparr>status_code = 201,
       content = JSON_User \<lparr>name = ''Ann'', email = ''a@x.com'', id' = 1,
                            created_at = Some 1000\<rparr>\<rparr>)"
proof -
  have n: "dict_get ann_body_extra ''name'' = dict_get ann_body_plain ''name''"
    by (simp add: ann_body_extra_def ann_body_plain_def dict_get_def)
  have e: "dict_get ann_body_extra ''email'' = dict_get ann_body_plain ''email''"
    by (simp add: ann_body_extra_def ann_body_plain_def dict_get_def)
  have dn: "dict_get ann_body_extra ''name'' = Some (JStr ''Ann'')"
    by (simp add: ann_body_extra_def dict_get_def)
  have de: "dict_get ann_body_extra ''email'' = Some (JStr ''a@x.com'')"
    by (simp add: ann_body_extra_def dict_get_def)
  note t = create_user_ignores_other_fields[OF n e, of empty_store 1000]
  have c: "app empty_store 1000 (POST_users (Some (JObj ann_body_extra))) =
      app empty_store 1000 (POST_users (Some (JObj ann_body_plain)))"
    using t by (rule conjunct1)
  have l: "(1::nat) \<le> length ''Ann'' \<and> length ''Ann'' \<le> 100 \<and>
      1 \<le> length ''a@x.com'' \<and> length ''a@x.com'' \<le> 100"
    by simp
  have "app empty_store 1000 (POST_users (Some (JObj ann_body_extra))) =
      (empty_store\<lparr>rows := rows empty_store @
           [\<lparr>row_id = next_id empty_store, row_name = ''Ann'', row_email = ''a@x.com'',
              row_created_at = 1000\<rparr>],
         next_id := next_id empty_store + 1\<rparr>,
       \<lparr>status_code = 201,
        content = JSON_User \<lparr>name = ''Ann'', email = ''a@x.com'', id' = next_id empty_store,
                             created_at = Some 1000\<rparr>\<rparr>)"
    using t[THEN conjunct2, THEN conjunct1, rule_format, of "''Ann''" "''a@x.com''"] dn de l
    by blast
  then have r: "app empty_store 1000 (POST_users (Some (JObj ann_body_extra))) =
     (\<lparr>rows = [\<lparr>row_id = 1, row_name = ''Ann'', row_email = ''a@x.com'', row_created_at = 1000\<rparr>],
       next_id = 2\<rparr>,
      \<lparr>status_code = 201,
       content = JSON_User \<lparr>name = ''Ann'', email = ''a@x.com'', id' = 1,
                            created_at = Some 1000\<rparr>\<rparr>)"
    by (simp add: empty_store_def del: app.simps)
  from n e dn de c r show ?thesis by (intro conjI)
qed

subsection \<open>The database settings\<close>

lemma load_dotenv_apply:
  "load_dotenv env dotenv k = (case env k of None \<Rightarrow> dotenv k | Some v \<Rightarrow> Some v)"
  by (simp add: load_dotenv_def map_add_def)

lemma getenv_optional: "getenv env k None Some = env k"
  by (cases "env k") (simp_all add: getenv_def)

lemma DATABASES_default:
  "DATABASES file env dotenv ''default'' =
     Some \<lparr>ENGINE = (case load_dotenv env dotenv ''DB_ENGINE'' of
                      None \<Rightarrow> ''django.db.backends.sqlite3'' | Some v \<Rightarrow> v),
           NAME = (case load_dotenv env dotenv ''DB_NAME'' of
                     None \<Rightarrow> Name_path (butlast (butlast file) @ [''db.sqlite3''])
                   | Some v \<Rightarrow> Name_str v),
           USER = load_dotenv env dotenv ''DB_USER'',
           PASSWORD = load_dotenv env dotenv ''DB_PASSWORD'',
           HOST = load_dotenv env dotenv ''DB_HOST'',
           PORT = load_dotenv env dotenv ''DB_PORT''\<rparr>"
  unfolding DATABASES_def Let_def getenv_optional
  by (simp add: getenv_def BASE_DIR_def parent_def)

text \<open>
  Claim C9. Each parameter of the default database is the value of its environment
  variable (\<^verbatim>\<open>DB_ENGINE\<close>, \<^verbatim>\<open>DB_NAME\<close>, \<^verbatim>\<open>DB_USER\<close>, \<^verbatim>\<open>DB_PASSWORD\<close>, \<^verbatim>\<open>DB_HOST\<close>, \<^verbatim>\<open>DB_PORT\<close>),
  a variable of the process going before one of the \<^verbatim>\<open>.env\<close> file. When \<^verbatim>\<open>DB_ENGINE\<close> and
  \<^verbatim>\<open>DB_NAME\<close> are not set, the engine is SQLite and the name is the file \<^verbatim>\<open>db.sqlite3\<close> in
  the project root, two levels above the settings file.
\<close>

theorem databases_from_environment:
  "DATABASES file env dotenv ''default'' =
     Some \<lparr>ENGINE = (case load_dotenv env dotenv ''DB_ENGINE'' of
                      None \<Rightarrow> ''django.db.backends.sqlite3'' | Some v \<Rightarrow> v),
           NAME = (case load_dotenv env dotenv ''DB_NAME'' of
                     None \<Rightarrow> Name_path (butlast (butlast file) @ [''db.sqlite3''])
                   | Some v \<Rightarrow> Name_str v),
           USER = load_dotenv env dotenv ''DB_USER'',
           PASSWORD = load_dotenv env dotenv ''DB_PASSWORD'',
           HOST = load_dotenv env dotenv ''DB_HOST'',
           PORT = load_dotenv env dotenv ''DB_PORT''\<rparr> \<and>
   (\<forall>k. load_dotenv env dotenv k = (case env k of None \<Rightarrow> dotenv k | Some v \<Rightarrow> Some v)) \<and>
   (load_dotenv env dotenv ''DB_ENGINE'' = None \<and> load_dotenv env dotenv ''DB_NAME'' = None \<longrightarrow>
      (\<exists>db. DATABASES file env dotenv ''default'' = Some db \<and>
         ENGINE db = ''django.db.backends.sqlite3'' \<and>
         NAME db = Name_path (butlast (butlast file) @ [''db.sqlite3''])))"
proof (intro conjI allI impI)
  show "DATABASES file env dotenv ''default'' =
     Some \<lparr>ENGINE = (case load_dotenv env dotenv ''DB_ENGINE'' of
                      None \<Rightarrow> ''django.db.backends.sqlite3'' | Some v \<Rightarrow> v),
           NAME = (case load_dotenv env dotenv ''DB_NAME'' of
                     None \<Rightarrow> Name_path (butlast (butlast file) @ [''db.sqlite3''])
                   | Some v \<Rightarrow> Name_str v),
           USER = load_dotenv env dotenv ''DB_USER'',
           PASSWORD = load_dotenv env dotenv ''DB_PASSWORD'',
           HOST = load_dotenv env dotenv ''DB_HOST'',
           PORT = load_dotenv env dotenv ''DB_PORT''\<rparr>"
    by (rule DATABASES_default)
next
  fix k
  show "load_dotenv env dotenv k = (case env k of None \<Rightarrow> dotenv k | Some v \<Rightarrow> Some v)"
    by (rule load_dotenv_apply)
next
  assume u: "load_dotenv env dotenv ''DB_ENGINE'' = None \<and> load_dotenv env dotenv ''DB_NAME'' = None"
  have "DATABASES file env dotenv ''default'' =
     Some \<lparr>ENGINE = ''django.db.backends.sqlite3'',
           NAME = Name_path (butlast (butlast file) @ [''db.sqlite3'']),
           USER = load_dotenv env dotenv ''DB_USER'',
           PASSWORD = load_dotenv env dotenv ''DB_PASSWORD'',
           HOST = load_dotenv env dotenv ''DB_HOST'',
           PORT = load_dotenv env dotenv ''DB_PORT''\<rparr>"
    unfolding DATABASES_default using u by simp
  then show "\<exists>db. DATABASES file env dotenv ''default'' = Some db \<and>
         ENGINE db = ''django.db.backends.sqlite3'' \<and>
         NAME db = Name_path (butlast (butlast file) @ [''db.sqlite3''])"
    by simp
qed

theorem databases_from_environment_witness:
  "load_dotenv Map.empty Map.empty ''DB_ENGINE'' = None \<and>
   load_dotenv Map.empty Map.empty ''DB_NAME'' = None \<and>
   DATABASES settings_file Map.empty Map.empty ''default'' =
     Some \<lparr>ENGINE = ''django.db.backends.sqlite3'',
           NAME = Name_path [''srv'', ''app'', ''db.sqlite3''],
           USER = None, PASSWORD = None, HOST = None, PORT = None\<rparr> \<and>
   DATABASES settings_file postgres_env dotenv_file ''default'' =
     Some \<lparr>ENGINE = ''django.db.backends.postgresql'', NAME = Name_str ''users'',
           USER = None, PASSWORD = None, HOST = Some ''db.local'', PORT = Some ''5432''\<rparr>"
proof -
  have e: "load_dotenv Map.empty Map.empty k = None" for k
    by (simp add: load_dotenv_def)
  have a: "DATABASES settings_file Map.empty Map.empty ''default'' =
     Some \<lparr>ENGINE = ''django.db.backends.sqlite3'',
           NAME = Name_path [''srv'', ''app'', ''db.sqlite3''],
           USER = None, PASSWORD = None, HOST = None, PORT = None\<rparr>"
    using databases_from_environment[of settings_file Map.empty Map.empty, THEN conjunct1]
    by (simp add: e settings_file_def)
  have b: "DATABASES settings_file postgres_env dotenv_file ''default'' =
     Some \<lparr>ENGINE = ''django.db.backends.postgresql'', NAME = Name_str ''users'',
           USER = None, PASSWORD = None, HOST = Some ''db.local'', PORT = Some ''5432''\<rparr>"
    using databases_from_environment[of settings_file postgres_env dotenv_file, THEN conjunct1]
    by (simp add: load_dotenv_apply postgres_env_def dotenv_file_def)
  from e[of "''DB_ENGINE''"] e[of "''DB_NAME''"] a b show ?thesis by (intro conjI)
qed

end
